theory Spec2Isabelle
  imports Main
begin

section \<open>Python strings\<close>

text \<open>
  A Python \<^verbatim>\<open>str\<close> is modelled as a \<^typ>\<open>string\<close> whose characters are the code
  points 0 to 255. The tables below are those of Python 3 on that range:
  \<^verbatim>\<open>str.lower\<close>, and the classes \<^verbatim>\<open>\d\<close>, \<^verbatim>\<open>\s\<close> and \<^verbatim>\<open>\w\<close> of the
  \<^verbatim>\<open>re\<close> module for \<^verbatim>\<open>str\<close> patterns.
\<close>

definition code :: "char \<Rightarrow> int" where
  "code c = of_char c"

definition chr_lower :: "char \<Rightarrow> char" where
  "chr_lower c =
     (let n = code c
      in if (65 \<le> n \<and> n \<le> 90) \<or> (192 \<le> n \<and> n \<le> 214) \<or> (216 \<le> n \<and> n \<le> 222)
         then char_of (n + 32) else c)"

text \<open>
  The upper-case partner inside the range; the three characters whose upper case lies
  outside it (181, 223, 255) stay as they are.
\<close>

definition chr_upper :: "char \<Rightarrow> char" where
  "chr_upper c =
     (let n = code c
      in if (97 \<le> n \<and> n \<le> 122) \<or> (224 \<le> n \<and> n \<le> 246) \<or> (248 \<le> n \<and> n \<le> 254)
         then char_of (n - 32) else c)"

definition lower :: "string \<Rightarrow> string" where
  "lower s = map chr_lower s"

definition is_digit :: "char \<Rightarrow> bool" where
  "is_digit c = (48 \<le> code c \<and> code c \<le> 57)"

definition is_space :: "char \<Rightarrow> bool" where
  "is_space c =
     (let n = code c
      in (9 \<le> n \<and> n \<le> 13) \<or> (28 \<le> n \<and> n \<le> 32) \<or> n = 133 \<or> n = 160)"

definition is_word :: "char \<Rightarrow> bool" where
  "is_word c =
     (let n = code c
      in (48 \<le> n \<and> n \<le> 57) \<or> (65 \<le> n \<and> n \<le> 90) \<or> n = 95 \<or> (97 \<le> n \<and> n \<le> 122)
         \<or> n = 170 \<or> n = 178 \<or> n = 179 \<or> n = 181 \<or> n = 185 \<or> n = 186
         \<or> (188 \<le> n \<and> n \<le> 190) \<or> (192 \<le> n \<and> n \<le> 214)
         \<or> (216 \<le> n \<and> n \<le> 246) \<or> 248 \<le> n)"

text \<open>\<open>starts_with w s\<close> is \<^verbatim>\<open>s.startswith(w)\<close>, and \<open>str_in w s\<close> is Python's
  \<^verbatim>\<open>w in s\<close> on strings.\<close>

fun starts_with :: "string \<Rightarrow> string \<Rightarrow> bool" where
  "starts_with [] s = True"
| "starts_with (a # w) [] = False"
| "starts_with (a # w) (c # s) = (a = c \<and> starts_with w s)"

text \<open>\<open>ci_prefix w s\<close>: the text \<open>s\<close> starts with \<open>w\<close>, case ignored.\<close>

fun ci_prefix :: "string \<Rightarrow> string \<Rightarrow> bool" where
  "ci_prefix [] s = True"
| "ci_prefix (a # w) [] = False"
| "ci_prefix (a # w) (c # s) = (chr_lower a = chr_lower c \<and> ci_prefix w s)"

fun str_in :: "string \<Rightarrow> string \<Rightarrow> bool" where
  "str_in w [] = (w = [])"
| "str_in w (c # s) = (starts_with w (c # s) \<or> str_in w s)"

text \<open>Python's \<^verbatim>\<open>sep.join(xs)\<close>.\<close>

fun join :: "string \<Rightarrow> string list \<Rightarrow> string" where
  "join sep [] = []"
| "join sep [x] = x"
| "join sep (x # y # ys) = x @ sep @ join sep (y # ys)"

section \<open>The regular expressions of the \<^verbatim>\<open>re\<close> module\<close>

text \<open>
  The fragment of the pattern language the program uses, matched the way the library
  matches it: by backtracking, alternatives tried left to right, every quantifier greedy,
  and (all patterns are compiled with \<^verbatim>\<open>re.IGNORECASE\<close>) ignoring case.
  \<open>Lits w\<close> is the literal text \<open>w\<close>; \<open>Rep cs lo hi\<close> is the character set \<open>cs\<close>
  repeated \<open>lo\<close> to \<open>hi\<close> times (\<open>None\<close>: unbounded); \<open>WordB\<close> is \<^verbatim>\<open>\b\<close>;
  \<open>Opt r\<close> is \<^verbatim>\<open>(?:r)?\<close>; \<open>Grp i r\<close> is the capturing group number \<open>i\<close>.
\<close>

datatype citem = Chr char | Range char char | Digit | Space | NonSpace

datatype regex =
    Lits string
  | Rep "citem list" nat "nat option"
  | WordB
  | Cat regex regex
  | Alt regex regex
  | Opt regex
  | Grp nat regex

fun item_match :: "citem \<Rightarrow> char \<Rightarrow> bool" where
  "item_match (Chr a) c = (c = a)"
| "item_match (Range a b) c = (code a \<le> code c \<and> code c \<le> code b)"
| "item_match Digit c = is_digit c"
| "item_match Space c = is_space c"
| "item_match NonSpace c = (\<not> is_space c)"

text \<open>Under \<^verbatim>\<open>re.IGNORECASE\<close> a character is in a set when it or its partner of the
  other case is.\<close>

definition set_match :: "citem list \<Rightarrow> char \<Rightarrow> bool" where
  "set_match items c =
     list_ex (\<lambda>it. item_match it c \<or> item_match it (chr_lower c) \<or> item_match it (chr_upper c))
       items"

text \<open>
  A matcher state: the character before the current position (for \<^verbatim>\<open>\b\<close>), the text
  still to read, and the groups captured so far (latest first).
\<close>

type_synonym groups = "(nat \<times> string) list"
type_synonym mstate = "char option \<times> string \<times> groups"

definition advance :: "nat \<Rightarrow> mstate \<Rightarrow> mstate" where
  "advance k st =
     (case st of (p, s, g) \<Rightarrow> ((if take k s = [] then p else Some (last (take k s))), drop k s, g))"

definition at_boundary :: "char option \<Rightarrow> string \<Rightarrow> bool" where
  "at_boundary p s =
     ((case p of None \<Rightarrow> False | Some c \<Rightarrow> is_word c)
        \<noteq> (case s of [] \<Rightarrow> False | c # _ \<Rightarrow> is_word c))"

text \<open>
  \<open>step r st\<close> lists the states in which a match of \<open>r\<close> from \<open>st\<close> can end, in the
  order in which the backtracking matcher reaches them; the library takes the first.
\<close>

fun step :: "regex \<Rightarrow> mstate \<Rightarrow> mstate list" where
  "step (Lits w) (p, s, g) =
     (if ci_prefix w s then [advance (length w) (p, s, g)] else [])"
| "step (Rep cs lo hi) (p, s, g) =
     (let n = length (takeWhile (set_match cs) s);
          m = (case hi of None \<Rightarrow> n | Some h \<Rightarrow> min h n)
      in map (\<lambda>k. advance k (p, s, g)) (rev [lo..<Suc m]))"
| "step WordB (p, s, g) = (if at_boundary p s then [(p, s, g)] else [])"
| "step (Cat a b) st = concat (map (step b) (step a st))"
| "step (Alt a b) st = step a st @ step b st"
| "step (Opt a) st = step a st @ [st]"
| "step (Grp i a) (p, s, g) =
     map (\<lambda>(p', s', g'). (p', s', (i, take (length s - length s') s) # g')) (step a (p, s, g))"

fun ngroups :: "regex \<Rightarrow> nat" where
  "ngroups (Cat a b) = ngroups a + ngroups b"
| "ngroups (Alt a b) = ngroups a + ngroups b"
| "ngroups (Opt a) = ngroups a"
| "ngroups (Grp i a) = Suc (ngroups a)"
| "ngroups r = 0"

text \<open>\<^verbatim>\<open>match.group(i)\<close>: \<open>None\<close> for a group that took no part in the match.\<close>

definition group :: "groups \<Rightarrow> nat \<Rightarrow> string option" where
  "group g i = map_of g i"

text \<open>The match at the current position: its length and its groups.\<close>

definition match_here :: "regex \<Rightarrow> char option \<Rightarrow> string \<Rightarrow> (nat \<times> groups) option" where
  "match_here r p s =
     (case step r (p, s, []) of
        [] \<Rightarrow> None
      | (p', s', g) # _ \<Rightarrow> Some (length s - length s', g))"

text \<open>
  An element of the list \<^verbatim>\<open>re.findall\<close> returns: the matched text for a pattern with
  no group, the groups' texts otherwise (one string for one group, a tuple for more; the
  empty string for a group that took no part), here as a list of strings.
\<close>

definition found_item :: "regex \<Rightarrow> string \<Rightarrow> nat \<Rightarrow> groups \<Rightarrow> string list" where
  "found_item r s n g =
     (if ngroups r = 0 then [take n s]
      else map (\<lambda>i. case group g i of None \<Rightarrow> [] | Some v \<Rightarrow> v) [1..<Suc (ngroups r)])"

text \<open>
  The scan of \<^verbatim>\<open>re.findall\<close> and \<^verbatim>\<open>re.sub\<close>: leftmost matches, none overlapping.
  \<open>k\<close> counts the characters of the last match still to skip. No pattern of the program
  matches the empty string; after an empty match the scan moves on by one character.
\<close>

fun findall_from :: "regex \<Rightarrow> char option \<Rightarrow> string \<Rightarrow> nat \<Rightarrow> string list list" where
  "findall_from r p [] k =
     (if 0 < k then []
      else case match_here r p [] of None \<Rightarrow> [] | Some (n, g) \<Rightarrow> [found_item r [] n g])"
| "findall_from r p (c # cs) k =
     (if 0 < k then findall_from r (Some c) cs (k - 1)
      else case match_here r p (c # cs) of
             None \<Rightarrow> findall_from r (Some c) cs 0
           | Some (n, g) \<Rightarrow> found_item r (c # cs) n g # findall_from r (Some c) cs (n - 1))"

definition findall :: "regex \<Rightarrow> string \<Rightarrow> string list list" where
  "findall r s = findall_from r None s 0"

fun sub_from :: "regex \<Rightarrow> (groups \<Rightarrow> string) \<Rightarrow> char option \<Rightarrow> string \<Rightarrow> nat \<Rightarrow> string" where
  "sub_from r repl p [] k =
     (if 0 < k then []
      else case match_here r p [] of None \<Rightarrow> [] | Some (n, g) \<Rightarrow> repl g)"
| "sub_from r repl p (c # cs) k =
     (if 0 < k then sub_from r repl (Some c) cs (k - 1)
      else case match_here r p (c # cs) of
             None \<Rightarrow> c # sub_from r repl (Some c) cs 0
           | Some (n, g) \<Rightarrow>
               repl g @ (if n = 0 then c # sub_from r repl (Some c) cs 0
                         else sub_from r repl (Some c) cs (n - 1)))"

definition sub :: "regex \<Rightarrow> (groups \<Rightarrow> string) \<Rightarrow> string \<Rightarrow> string" where
  "sub r repl s = sub_from r repl None s 0"

text \<open>Pattern syntax: \<^verbatim>\<open>[cs]\<close>, \<^verbatim>\<open>[cs]?\<close>, \<^verbatim>\<open>[cs]+\<close>, \<^verbatim>\<open>[cs]*\<close>, \<^verbatim>\<open>[cs]{n}\<close>, a
  sequence, and \<^verbatim>\<open>a|b|c\<close>.\<close>

definition single :: "citem list \<Rightarrow> regex" where
  "single cs = Rep cs 1 (Some 1)"

definition optional :: "citem list \<Rightarrow> regex" where
  "optional cs = Rep cs 0 (Some 1)"

definition many1 :: "citem list \<Rightarrow> regex" where
  "many1 cs = Rep cs 1 None"

definition many0 :: "citem list \<Rightarrow> regex" where
  "many0 cs = Rep cs 0 None"

definition exactly :: "citem list \<Rightarrow> nat \<Rightarrow> regex" where
  "exactly cs n = Rep cs n (Some n)"

fun cats :: "regex list \<Rightarrow> regex" where
  "cats [] = Lits []"
| "cats [r] = r"
| "cats (r # rs) = Cat r (cats rs)"

fun alts :: "regex list \<Rightarrow> regex" where
  "alts [] = Lits []"
| "alts [r] = r"
| "alts (r # rs) = Alt r (alts rs)"

text \<open>\<^verbatim>\<open>re.escape(w)\<close>: the pattern that matches the text \<open>w\<close> itself.\<close>

definition escape :: "string \<Rightarrow> regex" where
  "escape w = Lits w"

text \<open>\<^verbatim>\<open>str.upper\<close>, on the names the program applies it to.\<close>

definition upper :: "string \<Rightarrow> string" where
  "upper s = map chr_upper s"

text \<open>
  A Python \<^verbatim>\<open>dict\<close> keeps its keys in insertion order: an association list, a new
  key added at the end.
\<close>

fun dict_set :: "('k \<times> 'v) list \<Rightarrow> 'k \<Rightarrow> 'v \<Rightarrow> ('k \<times> 'v) list" where
  "dict_set [] k v = [(k, v)]"
| "dict_set ((k', v') # d) k v = (if k' = k then (k, v) # d else (k', v') # dict_set d k v)"

definition keys :: "('k \<times> 'v) list \<Rightarrow> 'k list" where
  "keys d = map fst d"

text \<open>The truth value of a list or dictionary in a condition: it is not empty.\<close>

definition truthy :: "'a list \<Rightarrow> bool" where
  "truthy xs = (xs \<noteq> [])"

section \<open>The character sets of the patterns\<close>

definition cs_sep :: "citem list" where
  "cs_sep = [Chr CHR ''-'', Chr CHR ''.'', Space]"

definition cs_local :: "citem list" where
  "cs_local = [Range CHR ''A'' CHR ''Z'', Range CHR ''a'' CHR ''z'', Range CHR ''0'' CHR ''9'',
     Chr CHR ''.'', Chr CHR ''_'', Chr CHR ''%'', Chr CHR ''+'', Chr CHR ''-'']"

definition cs_domain :: "citem list" where
  "cs_domain = [Range CHR ''A'' CHR ''Z'', Range CHR ''a'' CHR ''z'', Range CHR ''0'' CHR ''9'',
     Chr CHR ''.'', Chr CHR ''-'']"

definition cs_tld :: "citem list" where
  "cs_tld = [Range CHR ''A'' CHR ''Z'', Chr CHR ''|'', Range CHR ''a'' CHR ''z'']"

definition cs_slash :: "citem list" where
  "cs_slash = [Chr CHR ''/'', Chr CHR ''-'']"

definition cs_words :: "citem list" where
  "cs_words = [Range CHR ''A'' CHR ''Z'', Range CHR ''a'' CHR ''z'', Space]"

section \<open>filters.py: PromptFilter\<close>

text \<open>\<^verbatim>\<open>self.patterns\<close>, in the order of the dictionary literal.\<close>

definition patterns :: "(string \<times> regex) list" where
  "patterns =
   [(''email'',
       cats [WordB, many1 cs_local, Lits ''@'', many1 cs_domain, Lits ''.'', Rep cs_tld 2 None, WordB]),
    (''phone'',
       cats [WordB,
             Opt (Grp 1 (cats [Lits ''+'', Rep [Digit] 1 (Some 3), optional cs_sep])),
             optional [Chr CHR ''(''], exactly [Digit] 3, optional [Chr CHR '')''], optional cs_sep,
             exactly [Digit] 3, optional cs_sep, exactly [Digit] 4, WordB]),
    (''ssn'',
       cats [WordB, exactly [Digit] 3, Lits ''-'', exactly [Digit] 2, Lits ''-'', exactly [Digit] 4, WordB]),
    (''credit_card'',
       cats [WordB, exactly [Digit] 4, optional cs_sep, exactly [Digit] 4, optional cs_sep,
             exactly [Digit] 4, optional cs_sep, exactly [Digit] 4, WordB]),
    (''ip_address'',
       cats [WordB, Rep [Digit] 1 (Some 3), Lits ''.'', Rep [Digit] 1 (Some 3), Lits ''.'',
             Rep [Digit] 1 (Some 3), Lits ''.'', Rep [Digit] 1 (Some 3), WordB]),
    (''date_of_birth'',
       cats [WordB,
             Grp 1 (alts [cats [optional [Chr CHR ''0''], single [Range CHR ''1'' CHR ''9'']],
                          cats [Lits ''1'', single [Range CHR ''0'' CHR ''2'']]]),
             single cs_slash,
             Grp 2 (alts [cats [optional [Chr CHR ''0''], single [Range CHR ''1'' CHR ''9'']],
                          cats [single [Chr CHR ''1'', Chr CHR ''2''], single [Digit]],
                          cats [Lits ''3'', single [Chr CHR ''0'', Chr CHR ''1'']]]),
             single cs_slash, exactly [Digit] 4, WordB]),
    (''address'',
       cats [WordB, many1 [Digit], many1 [Space], many1 cs_words,
             alts [Lits ''Street'', Lits ''St'', Lits ''Avenue'', Lits ''Ave'', Lits ''Road'',
                   Lits ''Rd'', Lits ''Boulevard'', Lits ''Blvd'', Lits ''Lane'', Lits ''Ln'',
                   Lits ''Drive'', Lits ''Dr''],
             WordB])]"

definition high_risk_keywords :: "string list" where
  "high_risk_keywords =
   [''password'', ''secret'', ''api_key'', ''token'', ''private_key'', ''ssh_key'',
    ''database_password'', ''admin_password'', ''root_password'', ''master_key'',
    ''encryption_key'', ''decryption_key'', ''access_token'', ''refresh_token'',
    ''social_security'', ''ssn'', ''credit_card'', ''cvv'', ''pin'', ''passport'',
    ''driver_license'', ''bank_account'', ''routing_number'', ''swift_code'']"

definition medium_risk_keywords :: "string list" where
  "medium_risk_keywords =
   [''personal'', ''private'', ''confidential'', ''sensitive'', ''internal'',
    ''proprietary'', ''classified'', ''restricted'', ''secure'', ''protected'']"

type_synonym pii_dict = "(string \<times> string list list) list"

fun detect_loop :: "(string \<times> regex) list \<Rightarrow> string \<Rightarrow> pii_dict \<Rightarrow> pii_dict" where
  "detect_loop [] text detected = detected"
| "detect_loop ((pattern_name, pattern) # rest) text detected =
     (let matches = findall pattern text
      in if truthy matches then detect_loop rest text (dict_set detected pattern_name matches)
         else detect_loop rest text detected)"

definition detect_pii :: "string \<Rightarrow> pii_dict" where
  "detect_pii text = detect_loop patterns text []"

record keyword_hits =
  high :: "string list"
  medium :: "string list"

definition check_keywords :: "string \<Rightarrow> keyword_hits" where
  "check_keywords text =
     (let text_lower = lower text
      in \<lparr>high = filter (\<lambda>keyword. str_in keyword text_lower) high_risk_keywords,
          medium = filter (\<lambda>keyword. str_in keyword text_lower) medium_risk_keywords\<rparr>)"

record analysis =
  risk_level :: string
  pii_detected :: pii_dict
  keywords_found :: keyword_hits
  should_block :: bool
  total_pii_count :: nat
  high_risk_keywords_count :: nat
  medium_risk_keywords_count :: nat

definition analyze_prompt :: "string \<Rightarrow> analysis" where
  "analyze_prompt prompt =
     (let pii = detect_pii prompt;
          kw = check_keywords prompt;
          level =
            (if list_ex (\<lambda>name. name \<in> set (keys pii)) [''ssn'', ''credit_card''] then ''high''
             else if truthy pii \<or> truthy (high kw) \<or> truthy (medium kw) then ''medium''
             else ''low'')
      in \<lparr>risk_level = level,
          pii_detected = pii,
          keywords_found = kw,
          should_block = (level = ''high''),
          total_pii_count = sum_list (map (\<lambda>(name, matches). length matches) pii),
          high_risk_keywords_count = length (high kw),
          medium_risk_keywords_count = length (medium kw)\<rparr>)"

definition should_block_prompt :: "string \<Rightarrow> bool \<times> string" where
  "should_block_prompt prompt =
     (let a = analyze_prompt prompt
      in if should_block a then
           (let reasons1 =
                  (if truthy (pii_detected a)
                   then [''Detected PII: '' @ join '', '' (keys (pii_detected a))] else []);
                reasons2 =
                  (if truthy (high (keywords_found a))
                   then reasons1 @ [''High-risk keywords: '' @ join '', '' (high (keywords_found a))]
                   else reasons1)
            in (True, join ''; '' reasons2))
         else (False, ''No high-risk content detected''))"

section \<open>classifier.py\<close>

definition classify_risk :: "string \<Rightarrow> string" where
  "classify_risk prompt = risk_level (analyze_prompt prompt)"

definition get_detailed_analysis :: "string \<Rightarrow> analysis" where
  "get_detailed_analysis prompt = analyze_prompt prompt"

section \<open>redactor.py: PromptRedactor\<close>

definition redaction_patterns :: "(string \<times> regex) list" where
  "redaction_patterns =
   [(''email'',
       cats [WordB, many1 cs_local, Lits ''@'', many1 cs_domain, Lits ''.'', Rep cs_tld 2 None, WordB]),
    (''phone'',
       cats [WordB,
             Opt (Grp 1 (cats [Lits ''+'', Rep [Digit] 1 (Some 3), optional cs_sep])),
             optional [Chr CHR ''(''], exactly [Digit] 3, optional [Chr CHR '')''], optional cs_sep,
             exactly [Digit] 3, optional cs_sep, exactly [Digit] 4, WordB]),
    (''ssn'',
       cats [WordB, exactly [Digit] 3, Lits ''-'', exactly [Digit] 2, Lits ''-'', exactly [Digit] 4, WordB]),
    (''credit_card'',
       cats [WordB, exactly [Digit] 4, optional cs_sep, exactly [Digit] 4, optional cs_sep,
             exactly [Digit] 4, optional cs_sep, exactly [Digit] 4, WordB]),
    (''ip_address'',
       cats [WordB, Rep [Digit] 1 (Some 3), Lits ''.'', Rep [Digit] 1 (Some 3), Lits ''.'',
             Rep [Digit] 1 (Some 3), Lits ''.'', Rep [Digit] 1 (Some 3), WordB]),
    (''date_of_birth'',
       cats [WordB,
             Grp 1 (alts [cats [optional [Chr CHR ''0''], single [Range CHR ''1'' CHR ''9'']],
                          cats [Lits ''1'', single [Range CHR ''0'' CHR ''2'']]]),
             single cs_slash,
             Grp 2 (alts [cats [optional [Chr CHR ''0''], single [Range CHR ''1'' CHR ''9'']],
                          cats [single [Chr CHR ''1'', Chr CHR ''2''], single [Digit]],
                          cats [Lits ''3'', single [Chr CHR ''0'', Chr CHR ''1'']]]),
             single cs_slash, exactly [Digit] 4, WordB]),
    (''address'',
       cats [WordB, many1 [Digit], many1 [Space], many1 cs_words,
             alts [Lits ''Street'', Lits ''St'', Lits ''Avenue'', Lits ''Ave'', Lits ''Road'',
                   Lits ''Rd'', Lits ''Boulevard'', Lits ''Blvd'', Lits ''Lane'', Lits ''Ln'',
                   Lits ''Drive'', Lits ''Dr''],
             WordB])]"

definition redact_keywords_list :: "string list" where
  "redact_keywords_list =
   [''password'', ''secret'', ''api_key'', ''token'', ''private_key'', ''ssh_key'',
    ''database_password'', ''admin_password'', ''root_password'', ''master_key'',
    ''encryption_key'', ''decryption_key'', ''access_token'', ''refresh_token'',
    ''social_security'', ''ssn'', ''credit_card'', ''cvv'', ''pin'', ''passport'',
    ''driver_license'', ''bank_account'', ''routing_number'', ''swift_code'']"

definition marker :: "string \<Rightarrow> string" where
  "marker pattern_name = ''[REDACTED_'' @ upper pattern_name @ '']''"

fun redact_pii_loop ::
  "(string \<times> regex) list \<Rightarrow> string \<Rightarrow> string \<times> pii_dict \<Rightarrow> string \<times> pii_dict" where
  "redact_pii_loop [] text st = st"
| "redact_pii_loop ((pattern_name, pattern) # rest) text (redacted_text, redaction_mapping) =
     (let found_matches = findall pattern text
      in if truthy found_matches
         then redact_pii_loop rest text
                (sub pattern (\<lambda>g. marker pattern_name) redacted_text,
                 dict_set redaction_mapping pattern_name found_matches)
         else redact_pii_loop rest text (redacted_text, redaction_mapping))"

definition redact_pii :: "string \<Rightarrow> string \<times> pii_dict" where
  "redact_pii text = redact_pii_loop redaction_patterns text (text, [])"

definition already_redacted :: "string \<Rightarrow> bool" where
  "already_redacted redacted_text =
     (str_in ''[REDACTED_KEYWORD]'' redacted_text \<or> str_in ''[REDACTED_SECRET]'' redacted_text)"

fun redact_keywords_loop ::
  "string list \<Rightarrow> string \<Rightarrow> string \<times> string list \<Rightarrow> string \<times> string list" where
  "redact_keywords_loop [] text_lower st = st"
| "redact_keywords_loop (keyword # rest) text_lower (redacted_text, redacted_keywords) =
     (if already_redacted redacted_text
      then redact_keywords_loop rest text_lower (redacted_text, redacted_keywords)
      else if str_in keyword text_lower
      then redact_keywords_loop rest text_lower
             (sub (escape keyword) (\<lambda>g. ''[REDACTED_KEYWORD]'') redacted_text,
              redacted_keywords @ [keyword])
      else redact_keywords_loop rest text_lower (redacted_text, redacted_keywords))"

definition redact_keywords :: "string \<Rightarrow> string \<times> string list" where
  "redact_keywords text = redact_keywords_loop redact_keywords_list (lower text) (text, [])"

definition assignment_pattern :: regex where
  "assignment_pattern =
     cats [WordB, Grp 1 (alts (map escape redact_keywords_list)), WordB, many0 [Space],
           Opt (Grp 2 (alts [Lits ''='', Lits '':'', Lits ''is''])), many0 [Space],
           Grp 3 (many1 [NonSpace])]"

definition replacer :: "groups \<Rightarrow> string" where
  "replacer g =
     (let sep = (case group g 2 of None \<Rightarrow> [] | Some v \<Rightarrow> v)
      in ''[REDACTED_KEYWORD] '' @ sep @ '' [REDACTED_SECRET]'')"

definition redact_secret_assignments :: "string \<Rightarrow> string" where
  "redact_secret_assignments text = sub assignment_pattern replacer text"

record redaction =
  original_prompt :: string
  redacted_prompt :: string
  pii_redactions :: pii_dict
  keyword_redactions :: "string list"
  total_redactions :: nat
  was_redacted :: bool

definition redact_prompt :: "string \<Rightarrow> redaction" where
  "redact_prompt prompt =
     (let (redacted_text, pii_mapping) = redact_pii prompt;
          redacted_text2 = redact_secret_assignments redacted_text;
          (final_redacted_text, keyword_mapping) = redact_keywords redacted_text2;
          total = sum_list (map (\<lambda>(name, matches). length matches) pii_mapping)
                    + length keyword_mapping
      in \<lparr>original_prompt = prompt,
          redacted_prompt = final_redacted_text,
          pii_redactions = pii_mapping,
          keyword_redactions = keyword_mapping,
          total_redactions = total,
          was_redacted = (0 < total)\<rparr>)"

section \<open>main\_app.py: the prompt analysis handler\<close>

text \<open>
  The two model providers are outside the program: \<open>call_groq\<close> and \<open>call_gemini\<close>
  are parameters. The outcome records the texts passed to a provider, in order.
\<close>

datatype llm = Groq | Gemini

record outcome =
  sent :: "string list"
  llm_response :: string
  redaction_result :: "redaction option"

definition nl :: string where
  "nl = [CHR 0x0A]"

text \<open>The message of a blocked prompt; its first character, the sign U+1F6AB, is written
  as its four UTF-8 bytes.\<close>

definition blocked_message :: "string \<Rightarrow> string" where
  "blocked_message block_reason =
     [CHR 0xF0, CHR 0x9F, CHR 0x9A, CHR 0xAB] @ '' **PROMPT BLOCKED**'' @ nl @ nl
       @ ''**Reason:** '' @ block_reason @ nl @ nl
       @ ''This prompt contains sensitive information and has been blocked for security reasons.''"

definition call_llm :: "(string \<Rightarrow> string) \<Rightarrow> (string \<Rightarrow> string) \<Rightarrow> llm \<Rightarrow> string \<Rightarrow> string" where
  "call_llm call_groq call_gemini llm_choice text =
     (case llm_choice of Groq \<Rightarrow> call_groq text | Gemini \<Rightarrow> call_gemini text)"

definition handle_prompt ::
  "(string \<Rightarrow> string) \<Rightarrow> (string \<Rightarrow> string) \<Rightarrow> string \<Rightarrow> llm \<Rightarrow> string + outcome" where
  "handle_prompt call_groq call_gemini prompt llm_choice =
     (if prompt = [] then Inl ''Please enter a prompt.''
      else
        let detailed_analysis = get_detailed_analysis prompt;
            (block, block_reason) = should_block_prompt prompt
        in if block
           then Inr \<lparr>sent = [], llm_response = blocked_message block_reason,
                     redaction_result = None\<rparr>
           else if risk_level detailed_analysis = ''medium''
           then (let r = redact_prompt prompt;
                     prompt_to_send = redacted_prompt r
                 in Inr \<lparr>sent = [prompt_to_send],
                          llm_response = call_llm call_groq call_gemini llm_choice prompt_to_send,
                          redaction_result = Some r\<rparr>)
           else (let prompt_to_send = prompt
                 in Inr \<lparr>sent = [prompt_to_send],
                          llm_response = call_llm call_groq call_gemini llm_choice prompt_to_send,
                          redaction_result = None\<rparr>))"

section \<open>app/main.py: the endpoint check\_prompt\<close>

record prompt_request =
  req_prompt :: string
  req_llm :: llm

record prompt_response =
  risk :: string
  response :: string
  forwarded :: "string list"

text \<open>\<open>forwarded\<close> lists the texts passed to a provider; the endpoint returns the other
  two fields.\<close>

definition check_prompt ::
  "(string \<Rightarrow> string) \<Rightarrow> (string \<Rightarrow> string) \<Rightarrow> prompt_request \<Rightarrow> prompt_response" where
  "check_prompt call_groq call_gemini request =
     (let r = classify_risk (req_prompt request)
      in \<lparr>risk = r,
          response = call_llm call_groq call_gemini (req_llm request) (req_prompt request),
          forwarded = [req_prompt request]\<rparr>)"

section \<open>logger.py: PromptLogger\<close>

datatype cell = CStr string | CBool bool | CNat nat

record log_entry =
  log_timestamp :: string
  log_prompt :: string
  log_risk_level :: string
  log_should_block :: bool
  log_block_reason :: string
  log_model_used :: string
  log_was_redacted :: bool
  log_redacted_prompt :: string
  log_pii_detected :: "string list"
  log_high_risk_keywords :: "string list"
  log_medium_risk_keywords :: "string list"
  log_total_pii_count :: nat
  log_high_risk_keywords_count :: nat
  log_medium_risk_keywords_count :: nat
  log_llm_response_length :: nat
  log_processing_time_ms :: nat
  log_detailed_analysis :: analysis
  log_redaction_details :: "redaction option"
  log_llm_response :: string

text \<open>
  The two log files. Opening a file can fail: \<open>csv_fault\<close> and \<open>json_fault\<close> hold the
  message of the exception the next \<^verbatim>\<open>open\<close> of the file raises, if any.
\<close>

datatype json_content = Missing | Corrupt | Logs "log_entry list"

record store =
  csv_file :: "cell list list"
  json_file :: json_content
  csv_fault :: "string option"
  json_fault :: "string option"

text \<open>A call returns an exception (\<open>Inl\<close>) or a value, with the store it leaves and the
  lines it printed.\<close>

type_synonym 'a io = "(string + 'a) \<times> store \<times> string list"

definition csv_row :: "log_entry \<Rightarrow> cell list" where
  "csv_row e =
     [CStr (log_timestamp e), CStr (log_prompt e), CStr (log_risk_level e), CBool (log_should_block e),
      CStr (log_block_reason e), CStr (log_model_used e), CBool (log_was_redacted e),
      CStr (log_redacted_prompt e), CStr (join ''; '' (log_pii_detected e)),
      CStr (join ''; '' (log_high_risk_keywords e)), CStr (join ''; '' (log_medium_risk_keywords e)),
      CNat (log_total_pii_count e), CNat (log_high_risk_keywords_count e),
      CNat (log_medium_risk_keywords_count e), CNat (log_llm_response_length e),
      CNat (log_processing_time_ms e)]"

definition append_csv :: "store \<Rightarrow> cell list \<Rightarrow> string + store" where
  "append_csv st row =
     (case csv_fault st of
        Some e \<Rightarrow> Inl e
      | None \<Rightarrow> Inr (st\<lparr>csv_file := csv_file st @ [row]\<rparr>))"

definition log_to_csv :: "store \<Rightarrow> log_entry \<Rightarrow> unit io" where
  "log_to_csv st e =
     (case append_csv st (csv_row e) of
        Inl err \<Rightarrow> (Inr (), st, [''Error logging to CSV: '' @ err])
      | Inr st' \<Rightarrow> (Inr (), st', []))"

definition read_json :: "store \<Rightarrow> string + log_entry list" where
  "read_json st =
     (case json_file st of
        Missing \<Rightarrow> Inr []
      | Corrupt \<Rightarrow> (case json_fault st of Some e \<Rightarrow> Inl e | None \<Rightarrow> Inr [])
      | Logs logs \<Rightarrow> (case json_fault st of Some e \<Rightarrow> Inl e | None \<Rightarrow> Inr logs))"

definition write_json :: "store \<Rightarrow> log_entry list \<Rightarrow> string + store" where
  "write_json st logs =
     (case json_fault st of
        Some e \<Rightarrow> Inl e
      | None \<Rightarrow> Inr (st\<lparr>json_file := Logs logs\<rparr>))"

definition log_to_json :: "store \<Rightarrow> log_entry \<Rightarrow> unit io" where
  "log_to_json st e =
     (case read_json st of
        Inl err \<Rightarrow> (Inr (), st, [''Error logging to JSON: '' @ err])
      | Inr logs \<Rightarrow>
          (case write_json st (logs @ [e]) of
             Inl err \<Rightarrow> (Inr (), st, [''Error logging to JSON: '' @ err])
           | Inr st' \<Rightarrow> (Inr (), st', [])))"

definition make_entry ::
  "string \<Rightarrow> string \<Rightarrow> analysis \<Rightarrow> bool \<Rightarrow> string \<Rightarrow> string \<Rightarrow> string \<Rightarrow> redaction option \<Rightarrow> nat
     \<Rightarrow> log_entry" where
  "make_entry timestamp prompt detailed_analysis block block_reason model_used llm_resp
     redaction processing_time_ms =
     \<lparr>log_timestamp = timestamp,
      log_prompt = prompt,
      log_risk_level = risk_level detailed_analysis,
      log_should_block = block,
      log_block_reason = block_reason,
      log_model_used = model_used,
      log_was_redacted = (case redaction of None \<Rightarrow> False | Some r \<Rightarrow> was_redacted r),
      log_redacted_prompt = (case redaction of None \<Rightarrow> [] | Some r \<Rightarrow> redacted_prompt r),
      log_pii_detected = keys (pii_detected detailed_analysis),
      log_high_risk_keywords = high (keywords_found detailed_analysis),
      log_medium_risk_keywords = medium (keywords_found detailed_analysis),
      log_total_pii_count = total_pii_count detailed_analysis,
      log_high_risk_keywords_count = high_risk_keywords_count detailed_analysis,
      log_medium_risk_keywords_count = medium_risk_keywords_count detailed_analysis,
      log_llm_response_length = length llm_resp,
      log_processing_time_ms = processing_time_ms,
      log_detailed_analysis = detailed_analysis,
      log_redaction_details = redaction,
      log_llm_response = llm_resp\<rparr>"

text \<open>\<open>timestamp\<close> stands for \<^verbatim>\<open>datetime.now().isoformat()\<close>.\<close>

definition log_prompt_analysis ::
  "store \<Rightarrow> string \<Rightarrow> string \<Rightarrow> analysis \<Rightarrow> bool \<Rightarrow> string \<Rightarrow> string \<Rightarrow> string
     \<Rightarrow> redaction option \<Rightarrow> nat \<Rightarrow> log_entry io" where
  "log_prompt_analysis st timestamp prompt detailed_analysis block block_reason model_used
     llm_resp redaction processing_time_ms =
     (let e = make_entry timestamp prompt detailed_analysis block block_reason model_used
                llm_resp redaction processing_time_ms
      in case log_to_csv st e of
           (Inl err, st1, out1) \<Rightarrow> (Inl err, st1, out1)
         | (Inr u, st1, out1) \<Rightarrow>
             (case log_to_json st1 e of
                (Inl err, st2, out2) \<Rightarrow> (Inl err, st2, out1 @ out2)
              | (Inr v, st2, out2) \<Rightarrow> (Inr e, st2, out1 @ out2)))"

text \<open>A store on which every \<^verbatim>\<open>open\<close> fails.\<close>

definition full_disk :: store where
  "full_disk = \<lparr>csv_file = [], json_file = Missing,
                 csv_fault = Some ''disk full'', json_fault = Some ''disk full''\<rparr>"

section \<open>Classifier and redactor share their detectors\<close>

lemma patterns_same: "redaction_patterns = patterns"
  by (simp add: redaction_patterns_def patterns_def)

lemma redact_pii_loop_mapping:
  "snd (redact_pii_loop ps text (t, m)) = detect_loop ps text m"
  by (induction ps arbitrary: t m) (auto simp: Let_def)

lemma redact_pii_mapping: "snd (redact_pii text) = detect_pii text"
  by (simp add: redact_pii_def detect_pii_def patterns_same redact_pii_loop_mapping)

lemma pii_redactions_eq: "pii_redactions (redact_prompt p) = detect_pii p"
  using redact_pii_mapping [of p]
  by (cases "redact_pii p") (simp add: redact_prompt_def Let_def split: prod.splits)

lemma pii_detected_eq: "pii_detected (analyze_prompt p) = detect_pii p"
  by (simp add: analyze_prompt_def Let_def)

lemma dict_set_new: "k \<notin> set (keys d) \<Longrightarrow> dict_set d k v = d @ [(k, v)]"
  by (induction d k v rule: dict_set.induct) (auto simp: keys_def)

lemma detect_loop_append:
  assumes "distinct (map fst ps)" and "set (map fst ps) \<inter> set (keys d) = {}"
  shows "detect_loop ps text d =
           d @ map (\<lambda>(name, pat). (name, findall pat text))
                 (filter (\<lambda>(name, pat). truthy (findall pat text)) ps)"
  using assms
proof (induction ps arbitrary: d)
  case Nil
  then show ?case by simp
next
  case (Cons a ps)
  obtain name pat where a: "a = (name, pat)" by (cases a)
  have new: "name \<notin> set (keys d)" using Cons.prems(2) by (auto simp: a)
  have d1: "distinct (map fst ps)" using Cons.prems(1) by simp
  show ?case
  proof (cases "truthy (findall pat text)")
    case True
    have "set (map fst ps) \<inter> set (keys (d @ [(name, findall pat text)])) = {}"
      using Cons.prems by (auto simp: a keys_def)
    then have "detect_loop ps text (d @ [(name, findall pat text)]) =
        (d @ [(name, findall pat text)]) @ map (\<lambda>(name, pat). (name, findall pat text))
                 (filter (\<lambda>(name, pat). truthy (findall pat text)) ps)"
      using d1 by (rule Cons.IH [rotated])
    with True new show ?thesis by (simp add: a dict_set_new)
  next
    case False
    have "set (map fst ps) \<inter> set (keys d) = {}" using Cons.prems(2) by auto
    then have "detect_loop ps text d =
        d @ map (\<lambda>(name, pat). (name, findall pat text))
                 (filter (\<lambda>(name, pat). truthy (findall pat text)) ps)"
      using d1 by (rule Cons.IH [rotated])
    with False show ?thesis by (simp add: a)
  qed
qed

lemma pattern_names:
  "map fst patterns =
     [''email'', ''phone'', ''ssn'', ''credit_card'', ''ip_address'', ''date_of_birth'', ''address'']"
  by (simp add: patterns_def)

text \<open>The findings are the detectors with a match, in the order of the table.\<close>

lemma detect_pii_fired:
  "detect_pii text =
     map (\<lambda>(name, pat). (name, findall pat text))
       (filter (\<lambda>(name, pat). findall pat text \<noteq> []) patterns)"
proof -
  have "distinct (map fst patterns)" by (simp add: pattern_names)
  then show ?thesis
    using detect_loop_append [of patterns "[]" "text"]
    by (simp add: detect_pii_def keys_def truthy_def)
qed

text \<open>
  C9. The classifier and the redactor detect with the same detectors: the two pattern
  tables are the same list (same names, same patterns, same order), and for every prompt
  the detector names in the classifier's findings are those in the redactor's PII
  redactions, in the same order.
\<close>

theorem detectors_identical:
  "redaction_patterns = patterns
   \<and> keys (pii_redactions (redact_prompt p)) = keys (pii_detected (analyze_prompt p))
   \<and> set (keys (pii_redactions (redact_prompt p))) = set (keys (pii_detected (analyze_prompt p)))"
  by (simp add: patterns_same pii_redactions_eq pii_detected_eq)

section \<open>The risk level and the block decision\<close>

text \<open>
  C1. For every prompt the risk level follows the three-case rule: high if the findings
  hold \<open>ssn\<close> or \<open>credit_card\<close>; otherwise medium if the findings are not empty or a
  high-risk or medium-risk keyword occurs in the lower-cased prompt; otherwise low.
\<close>

theorem risk_level_rule:
  "risk_level (analyze_prompt p) =
     (if ''ssn'' \<in> set (keys (pii_detected (analyze_prompt p)))
         \<or> ''credit_card'' \<in> set (keys (pii_detected (analyze_prompt p)))
      then ''high''
      else if pii_detected (analyze_prompt p) \<noteq> []
              \<or> (\<exists>k \<in> set high_risk_keywords \<union> set medium_risk_keywords. str_in k (lower p))
      then ''medium''
      else ''low'')"
  by (auto simp: analyze_prompt_def Let_def check_keywords_def truthy_def filter_empty_conv)

lemma should_block_eq: "should_block (analyze_prompt p) = (risk_level (analyze_prompt p) = ''high'')"
  by (simp add: analyze_prompt_def Let_def)

lemma high_has_pii: "risk_level (analyze_prompt p) = ''high'' \<Longrightarrow> pii_detected (analyze_prompt p) \<noteq> []"
  by (auto simp: analyze_prompt_def Let_def keys_def split: if_splits)

text \<open>
  C7. For every prompt the block decision is true exactly when the risk level is high.
  When it is false the reason is the fixed text; when it is true the reason lists the names
  of the detectors that fired and, if any, the high-risk keywords that occurred, the two
  parts joined with \<open>; \<close>.
\<close>

theorem should_block_rule:
  "should_block_prompt p =
     (if risk_level (analyze_prompt p) = ''high''
      then (True,
            join ''; ''
              ((''Detected PII: '' @ join '', '' (keys (pii_detected (analyze_prompt p))))
               # (if high (keywords_found (analyze_prompt p)) = [] then []
                  else [''High-risk keywords: '' @ join '', '' (high (keywords_found (analyze_prompt p)))])))
      else (False, ''No high-risk content detected''))"
  using high_has_pii [of p]
  by (simp add: should_block_prompt_def Let_def should_block_eq truthy_def)

section \<open>The bare-keyword pass\<close>

lemma starts_with_append: "starts_with m (m @ x)"
  by (induction m) auto

lemma str_in_prefix: "str_in m (m @ x)"
  by (cases "m @ x") (use starts_with_append [of m x] in auto)

lemma str_in_Cons: "str_in m s \<Longrightarrow> str_in m (c # s)"
  by simp

lemma starts_with_length: "starts_with w s \<Longrightarrow> length w \<le> length s"
  by (induction w s rule: starts_with.induct) auto

lemma length_lower: "length (lower s) = length s"
  by (simp add: lower_def)

lemma ci_prefix_lower: "ci_prefix w s = starts_with (lower w) (lower s)"
  by (induction w s rule: ci_prefix.induct) (simp_all add: lower_def)

lemma match_here_Lits:
  "match_here (Lits w) p s =
     (if starts_with (lower w) (lower s) then Some (length w, []) else None)"
proof (cases "starts_with (lower w) (lower s)")
  case True
  then have "length w \<le> length s"
    using starts_with_length [of "lower w" "lower s"] by (simp add: length_lower)
  with True show ?thesis
    by (simp add: match_here_def advance_def ci_prefix_lower)
next
  case False
  then show ?thesis by (simp add: match_here_def ci_prefix_lower)
qed

lemma sub_from_hit:
  assumes "lower w = w" and "str_in w (lower s)"
  shows "str_in m (sub_from (Lits w) (\<lambda>g. m) p s 0)"
  using assms(2)
proof (induction s arbitrary: p)
  case Nil
  then have "w = []" by (simp add: lower_def)
  then show ?case
    using str_in_prefix [of m "[]"] by (simp add: match_here_Lits lower_def)
next
  case (Cons c cs)
  show ?case
  proof (cases "starts_with w (lower (c # cs))")
    case True
    then show ?thesis
      using assms(1) str_in_prefix [of m] by (simp add: match_here_Lits)
  next
    case False
    with Cons.prems have "str_in w (lower cs)" by (simp add: lower_def)
    then have "str_in m (sub_from (Lits w) (\<lambda>g. m) (Some c) cs 0)" by (rule Cons.IH)
    with False show ?thesis
      using assms(1) by (simp add: match_here_Lits)
  qed
qed

lemma sub_marks:
  "lower w = w \<Longrightarrow> str_in w (lower t)
     \<Longrightarrow> already_redacted (sub (escape w) (\<lambda>g. ''[REDACTED_KEYWORD]'') t)"
  by (simp add: already_redacted_def sub_def escape_def sub_from_hit)

lemma loop_skip:
  "already_redacted t \<Longrightarrow> redact_keywords_loop ks low (t, acc) = (t, acc)"
  by (induction ks) auto

lemma loop_first:
  assumes "\<not> already_redacted t" and "\<forall>k \<in> set ks. lower k = k"
  shows "redact_keywords_loop ks (lower t) (t, acc) =
           (case find (\<lambda>k. str_in k (lower t)) ks of
              None \<Rightarrow> (t, acc)
            | Some k \<Rightarrow> (sub (escape k) (\<lambda>g. ''[REDACTED_KEYWORD]'') t, acc @ [k]))"
  using assms(2)
proof (induction ks)
  case Nil
  then show ?case by simp
next
  case (Cons k ks)
  show ?case
  proof (cases "str_in k (lower t)")
    case True
    moreover have "lower k = k" using Cons.prems by simp
    ultimately have "already_redacted (sub (escape k) (\<lambda>g. ''[REDACTED_KEYWORD]'') t)"
      by (simp add: sub_marks)
    with True assms(1) show ?thesis by (simp add: loop_skip)
  next
    case False
    with assms(1) Cons show ?thesis by simp
  qed
qed

lemmas char_defs = code_def chr_lower_def chr_upper_def lower_def upper_def is_digit_def
  is_space_def is_word_def char_of_def

lemma keywords_lower: "\<forall>k \<in> set redact_keywords_list. lower k = k"
  by (simp add: redact_keywords_list_def char_defs)

text \<open>
  C10. One call of the bare-keyword pass replaces and records at most one keyword: nothing
  when the text already holds a keyword or secret marker; otherwise only the first keyword
  of the list that occurs in the lower-cased text, since its replacement brings in the
  marker and the guard then skips every remaining keyword.
\<close>

theorem redact_keywords_at_most_one:
  "redact_keywords text =
     (if already_redacted text then (text, [])
      else case find (\<lambda>k. str_in k (lower text)) redact_keywords_list of
             None \<Rightarrow> (text, [])
           | Some k \<Rightarrow> (sub (escape k) (\<lambda>g. ''[REDACTED_KEYWORD]'') text, [k]))
   \<and> length (snd (redact_keywords text)) \<le> 1
   \<and> (snd (redact_keywords text) \<noteq> [] \<longrightarrow> already_redacted (fst (redact_keywords text)))"
proof (cases "already_redacted text")
  case True
  then show ?thesis by (simp add: redact_keywords_def loop_skip)
next
  case False
  then have eq: "redact_keywords text =
      (case find (\<lambda>k. str_in k (lower text)) redact_keywords_list of
         None \<Rightarrow> (text, [])
       | Some k \<Rightarrow> (sub (escape k) (\<lambda>g. ''[REDACTED_KEYWORD]'') text, [k]))"
    using loop_first [OF False keywords_lower, of "[]"]
    by (simp add: redact_keywords_def split: option.splits)
  show ?thesis
  proof (cases "find (\<lambda>k. str_in k (lower text)) redact_keywords_list")
    case None
    with False eq show ?thesis by simp
  next
    case (Some k)
    then have "k \<in> set redact_keywords_list" and "str_in k (lower text)"
      by (auto simp: find_Some_iff)
    then have "already_redacted (sub (escape k) (\<lambda>g. ''[REDACTED_KEYWORD]'') text)"
      using keywords_lower by (simp add: sub_marks)
    with False eq Some show ?thesis by simp
  qed
qed

lemmas engine_defs = set_match_def advance_def at_boundary_def group_def match_here_def
  found_item_def findall_def sub_def single_def optional_def many1_def many0_def exactly_def escape_def
  keys_def truthy_def cs_sep_def cs_local_def cs_domain_def cs_tld_def cs_slash_def cs_words_def

theorem redact_keywords_at_most_one_witness:
  "redact_keywords ''pin token'' = (''pin [REDACTED_KEYWORD]'', [''token''])"
proof -
  have a: "already_redacted ''pin token'' = False"
    by (simp add: already_redacted_def)
  have b: "find (\<lambda>k. str_in k (lower ''pin token'')) redact_keywords_list = Some ''token''"
    by (simp add: redact_keywords_list_def char_defs)
  have c: "sub (escape ''token'') (\<lambda>g. ''[REDACTED_KEYWORD]'') ''pin token'' = ''pin [REDACTED_KEYWORD]''"
    by (simp add: engine_defs char_defs)
  show ?thesis
    using redact_keywords_at_most_one [of "''pin token''"] by (simp add: a b c)
qed

section \<open>Redacting a text in which nothing matches\<close>

lemma sub_from_no_match:
  "findall_from r p s 0 = [] \<Longrightarrow> sub_from r repl p s 0 = s"
proof (induction s arbitrary: p)
  case Nil
  then show ?case by (cases "match_here r p []") auto
next
  case (Cons c cs)
  show ?case
  proof (cases "match_here r p (c # cs)")
    case None
    with Cons.prems have "findall_from r (Some c) cs 0 = []" by simp
    then have "sub_from r repl (Some c) cs 0 = cs" by (rule Cons.IH)
    with None show ?thesis by simp
  next
    case (Some a)
    with Cons.prems show ?thesis by (cases a) simp
  qed
qed

lemma sub_no_match: "findall r s = [] \<Longrightarrow> sub r repl s = s"
  by (simp add: findall_def sub_def sub_from_no_match)

lemma dict_set_nonempty: "dict_set d k v \<noteq> []"
  by (induction d k v rule: dict_set.induct) simp_all

lemma detect_loop_nonempty: "d \<noteq> [] \<Longrightarrow> detect_loop ps text d \<noteq> []"
proof (induction ps arbitrary: d)
  case Nil
  then show ?case by simp
next
  case (Cons a ps)
  obtain name pat where a: "a = (name, pat)" by (cases a)
  show ?case
    using Cons.IH [of d] Cons.IH [of "dict_set d name (findall pat text)"] Cons.prems
    by (simp add: a dict_set_nonempty Let_def)
qed

lemma redact_pii_loop_nothing:
  "detect_loop ps text [] = [] \<Longrightarrow> redact_pii_loop ps text (t, []) = (t, [])"
proof (induction ps)
  case Nil
  then show ?case by simp
next
  case (Cons a ps)
  obtain name pat where a: "a = (name, pat)" by (cases a)
  show ?case
  proof (cases "truthy (findall pat text)")
    case True
    then have "detect_loop (a # ps) text [] \<noteq> []"
      using detect_loop_nonempty [of "dict_set [] name (findall pat text)" ps "text"]
      by (simp add: a)
    with Cons.prems show ?thesis by simp
  next
    case False
    with Cons show ?thesis by (simp add: a)
  qed
qed

lemma redact_pii_nothing: "detect_pii r = [] \<Longrightarrow> redact_pii r = (r, [])"
  by (simp add: detect_pii_def redact_pii_def patterns_same redact_pii_loop_nothing)

lemma keyword_lists_same: "redact_keywords_list = high_risk_keywords"
  by (simp add: redact_keywords_list_def high_risk_keywords_def)

lemma redact_keywords_nothing:
  assumes "already_redacted r \<or> high (check_keywords r) = []"
  shows "redact_keywords r = (r, [])"
proof (cases "already_redacted r")
  case True
  then show ?thesis by (simp add: redact_keywords_def loop_skip)
next
  case False
  with assms have "filter (\<lambda>k. str_in k (lower r)) redact_keywords_list = []"
    by (simp add: check_keywords_def keyword_lists_same Let_def)
  then have "find (\<lambda>k. str_in k (lower r)) redact_keywords_list = None"
    by (simp add: find_None_iff filter_empty_conv)
  then show ?thesis
    using loop_first [OF False keywords_lower, of "[]"] by (simp add: redact_keywords_def)
qed

text \<open>
  C3, as amended. Redaction leaves a text unchanged when nothing in it matches any more:
  for the redacted text \<open>r\<close> of any prompt, if no detector matches \<open>r\<close>, the
  secret-assignment pattern does not match \<open>r\<close>, and \<open>r\<close> holds a keyword or secret marker
  or no high-risk keyword, then redacting \<open>r\<close> returns \<open>r\<close>.
\<close>

theorem redact_stable:
  assumes "r = redacted_prompt (redact_prompt p)"
    and "detect_pii r = []"
    and "findall assignment_pattern r = []"
    and "already_redacted r \<or> high (check_keywords r) = []"
  shows "redacted_prompt (redact_prompt r) = r"
proof -
  have 1: "redact_pii r = (r, [])"
    using assms(2) by (rule redact_pii_nothing)
  have 2: "redact_secret_assignments r = r"
    using assms(3) by (simp only: redact_secret_assignments_def sub_no_match)
  have 3: "redact_keywords r = (r, [])"
    using assms(4) by (rule redact_keywords_nothing)
  show ?thesis
    by (simp add: redact_prompt_def 1 2 3)
qed

section \<open>The decision policy of the handler\<close>

text \<open>The handler of main\_app.py sends nothing for a high-risk prompt, the redacted text for
  a medium-risk one and the prompt itself for a low-risk one.\<close>

lemma should_block_prompt_fst:
  "fst (should_block_prompt p) = (risk_level (analyze_prompt p) = ''high'')"
  by (simp add: should_block_prompt_def Let_def should_block_eq)

lemma handle_prompt_policy:
  assumes "prompt \<noteq> []"
  shows "handle_prompt call_groq call_gemini prompt llm_choice =
     (if risk_level (analyze_prompt prompt) = ''high''
      then Inr \<lparr>sent = [],
                llm_response = blocked_message (snd (should_block_prompt prompt)),
                redaction_result = None\<rparr>
      else if risk_level (analyze_prompt prompt) = ''medium''
      then Inr \<lparr>sent = [redacted_prompt (redact_prompt prompt)],
                llm_response = call_llm call_groq call_gemini llm_choice
                                 (redacted_prompt (redact_prompt prompt)),
                redaction_result = Some (redact_prompt prompt)\<rparr>
      else Inr \<lparr>sent = [prompt],
                llm_response = call_llm call_groq call_gemini llm_choice prompt,
                redaction_result = None\<rparr>)"
  using assms should_block_prompt_fst [of prompt]
  by (cases "should_block_prompt prompt")
     (simp add: handle_prompt_def get_detailed_analysis_def Let_def)

section \<open>The log swallows storage failures\<close>

text \<open>
  C6, as amended. A failure to store a log entry is not reported to the caller: both
  writers catch it, print \<open>Error logging to CSV\<close> or \<open>Error logging to JSON\<close> with the
  message, leave the store as it was and return normally, and \<open>log_prompt_analysis\<close>
  returns the entry.
\<close>

theorem log_failure_swallowed:
  "fst (log_to_csv st e) = Inr ()
   \<and> fst (log_to_json st e) = Inr ()
   \<and> fst (log_prompt_analysis st ts p a b br mu resp red ms)
       = Inr (make_entry ts p a b br mu resp red ms)
   \<and> (csv_fault st = Some err
        \<longrightarrow> log_to_csv st e = (Inr (), st, [''Error logging to CSV: '' @ err]))
   \<and> (json_fault st = Some err
        \<longrightarrow> log_to_json st e = (Inr (), st, [''Error logging to JSON: '' @ err]))"
  by (auto simp: log_to_csv_def log_to_json_def log_prompt_analysis_def append_csv_def
        read_json_def write_json_def Let_def split: option.splits sum.splits json_content.splits)

text \<open>C6 at a store whose files cannot be opened.\<close>

theorem log_failure_swallowed_witness:
  "log_to_json full_disk (make_entry ''t'' ''hi'' (analyze_prompt ''hi'') False [] ''groq'' ''ok'' None 0)
     = (Inr (), full_disk, [''Error logging to JSON: disk full''])"
  using log_failure_swallowed [of full_disk _ _ _ _ _ _ _ _ _ _ "''disk full''"]
  by (simp add: full_disk_def)

text \<open>C6 fails as stated: both writes fail and the call returns the entry, with no error.\<close>

theorem log_failure_not_reported:
  "json_fault full_disk = Some ''disk full''
   \<and> csv_fault full_disk = Some ''disk full''
   \<and> log_prompt_analysis full_disk ''t'' ''hi'' (analyze_prompt ''hi'') False [] ''groq'' ''ok'' None 0
       = (Inr (make_entry ''t'' ''hi'' (analyze_prompt ''hi'') False [] ''groq'' ''ok'' None 0),
          full_disk,
          [''Error logging to CSV: disk full'', ''Error logging to JSON: disk full''])"
  by (simp add: full_disk_def log_prompt_analysis_def log_to_csv_def log_to_json_def
        append_csv_def read_json_def write_json_def)

section \<open>The program on concrete prompts\<close>

lemmas prog_defs = patterns_def high_risk_keywords_def medium_risk_keywords_def detect_pii_def
  check_keywords_def analyze_prompt_def should_block_prompt_def redaction_patterns_def
  redact_keywords_list_def marker_def redact_pii_def already_redacted_def redact_keywords_def
  assignment_pattern_def replacer_def redact_secret_assignments_def redact_prompt_def

lemma analyze_go:
  "analyze_prompt ''How do I learn Go?'' =
     \<lparr>risk_level = ''low'', pii_detected = [],
      keywords_found = \<lparr>high = [], medium = []\<rparr>, should_block = False,
      total_pii_count = 0, high_risk_keywords_count = 0, medium_risk_keywords_count = 0\<rparr>"
  by (simp add: prog_defs engine_defs char_defs)

lemma no_keyword_go:
  "\<not> (\<exists>k \<in> set high_risk_keywords \<union> set medium_risk_keywords.
         str_in k (lower ''How do I learn Go?''))"
  by (simp add: high_risk_keywords_def medium_risk_keywords_def char_defs)

text \<open>The rule of C1 at a prompt with no finding and no keyword: the level is low.\<close>

theorem risk_level_rule_witness:
  "risk_level (analyze_prompt ''How do I learn Go?'') = ''low''"
  using risk_level_rule [of "''How do I learn Go?''"] no_keyword_go
  by (simp add: analyze_go keys_def)

lemma analyze_ssn:
  "analyze_prompt ''My SSN is 123-45-6789'' =
     \<lparr>risk_level = ''high'', pii_detected = [(''ssn'', [[''123-45-6789'']])],
      keywords_found = \<lparr>high = [''ssn''], medium = []\<rparr>, should_block = True,
      total_pii_count = 1, high_risk_keywords_count = 1, medium_risk_keywords_count = 0\<rparr>"
  by (simp add: prog_defs engine_defs char_defs)

text \<open>The rule of C7 at a prompt that holds a social security number.\<close>

theorem should_block_rule_witness:
  "should_block_prompt ''My SSN is 123-45-6789''
     = (True, ''Detected PII: ssn; High-risk keywords: ssn'')"
  using should_block_rule [of "''My SSN is 123-45-6789''"]
  by (simp add: analyze_ssn keys_def)

lemma detect_email_phone:
  "detect_pii ''Email me at a@b.com or call 555-123-4567''
     = [(''email'', [[''a@b.com'']]), (''phone'', [[[]]])]"
  by (simp add: prog_defs engine_defs char_defs)

text \<open>C9 at a prompt with an e-mail address and a phone number.\<close>

theorem detectors_identical_witness:
  "keys (pii_redactions (redact_prompt ''Email me at a@b.com or call 555-123-4567''))
     = [''email'', ''phone'']"
  using detectors_identical [of "''Email me at a@b.com or call 555-123-4567''"]
  by (simp add: pii_detected_eq detect_email_phone keys_def)

lemma analyze_hunter2:
  "analyze_prompt ''My password is hunter2'' =
     \<lparr>risk_level = ''medium'', pii_detected = [],
      keywords_found = \<lparr>high = [''password''], medium = []\<rparr>, should_block = False,
      total_pii_count = 0, high_risk_keywords_count = 1, medium_risk_keywords_count = 0\<rparr>"
  by (simp add: prog_defs engine_defs char_defs)

lemma redact_hunter2:
  "redact_prompt ''My password is hunter2'' =
     \<lparr>original_prompt = ''My password is hunter2'',
      redacted_prompt = ''My [REDACTED_KEYWORD] is [REDACTED_SECRET]'',
      pii_redactions = [], keyword_redactions = [], total_redactions = 0,
      was_redacted = False\<rparr>"
  by (simp add: prog_defs engine_defs char_defs)

text \<open>The amended C3 at the redacted text of \<open>My password is hunter2\<close>.\<close>

theorem redact_stable_witness:
  "redacted_prompt (redact_prompt (redacted_prompt (redact_prompt ''My password is hunter2'')))
     = redacted_prompt (redact_prompt ''My password is hunter2'')"
proof -
  let ?r = "''My [REDACTED_KEYWORD] is [REDACTED_SECRET]''"
  have a: "?r = redacted_prompt (redact_prompt ''My password is hunter2'')"
    by (simp add: redact_hunter2)
  have b: "detect_pii ?r = []"
    by (simp add: prog_defs engine_defs char_defs)
  have c: "findall assignment_pattern ?r = []"
    by (simp add: prog_defs engine_defs char_defs)
  have d: "already_redacted ?r \<or> high (check_keywords ?r) = []"
    by (simp add: already_redacted_def)
  show ?thesis
    using redact_stable [OF a b c d] by (simp add: redact_hunter2)
qed

text \<open>
  C8. For the prompt \<open>My password is hunter2\<close> the risk level is medium, and the redacted
  text holds the markers \<open>[REDACTED_KEYWORD]\<close> and \<open>[REDACTED_SECRET]\<close> and does not hold
  \<open>hunter2\<close>.
\<close>

theorem scenario_password:
  "risk_level (analyze_prompt ''My password is hunter2'') = ''medium''
   \<and> str_in ''[REDACTED_KEYWORD]'' (redacted_prompt (redact_prompt ''My password is hunter2''))
   \<and> str_in ''[REDACTED_SECRET]'' (redacted_prompt (redact_prompt ''My password is hunter2''))
   \<and> \<not> str_in ''hunter2'' (redacted_prompt (redact_prompt ''My password is hunter2''))"
  by (simp add: analyze_hunter2 redact_hunter2)

text \<open>
  C5. The count invariant fails on a secret assignment: the secret-assignment pass rewrites
  the text and records nothing, and the guard of the bare-keyword pass then skips the
  keyword, so the text changes while \<open>total_redactions\<close> is 0 and \<open>was_redacted\<close> is false.
\<close>

theorem count_misses_secret_assignment:
  "total_redactions (redact_prompt ''My password is hunter2'') = 0
   \<and> was_redacted (redact_prompt ''My password is hunter2'') = False
   \<and> redacted_prompt (redact_prompt ''My password is hunter2'') \<noteq> ''My password is hunter2''"
  by (simp add: redact_hunter2)

lemma redact_ssn_only:
  "redact_prompt ''123-45-6789'' =
     \<lparr>original_prompt = ''123-45-6789'',
      redacted_prompt = ''[REDACTED_[REDACTED_KEYWORD]]'',
      pii_redactions = [(''ssn'', [[''123-45-6789'']])],
      keyword_redactions = [''ssn''], total_redactions = 2, was_redacted = True\<rparr>"
  by (simp add: prog_defs engine_defs char_defs)

lemma detect_ssn_only: "detect_pii ''123-45-6789'' = [(''ssn'', [[''123-45-6789'']])]"
  by (simp add: prog_defs engine_defs char_defs)

text \<open>
  C4. Coverage fails on a social security number: the classifier reports the detector
  \<open>ssn\<close>, the PII pass writes \<open>[REDACTED_SSN]\<close>, and the bare-keyword pass then finds the
  keyword \<open>ssn\<close> inside that marker and rewrites it, so the marker is not in the redacted text.
\<close>

theorem ssn_marker_lost:
  "''ssn'' \<in> set (keys (pii_detected (analyze_prompt ''123-45-6789'')))
   \<and> marker ''ssn'' = ''[REDACTED_SSN]''
   \<and> redacted_prompt (redact_prompt ''123-45-6789'') = ''[REDACTED_[REDACTED_KEYWORD]]''
   \<and> \<not> str_in (marker ''ssn'') (redacted_prompt (redact_prompt ''123-45-6789''))"
  by (simp add: pii_detected_eq detect_ssn_only redact_ssn_only keys_def marker_def char_defs)

lemma redact_pin_ip:
  "redacted_prompt (redact_prompt ''pin1.1.1.1'') = ''[REDACTED_KEYWORD]1.1.1.1''"
  by (simp add: prog_defs engine_defs char_defs)

lemma redact_pin_ip_again:
  "redacted_prompt (redact_prompt ''[REDACTED_KEYWORD]1.1.1.1'')
     = ''[REDACTED_KEYWORD][REDACTED_IP_ADDRESS]''"
  by (simp add: prog_defs engine_defs char_defs)

text \<open>
  C3 fails as stated: the keyword marker that replaces \<open>pin\<close> puts a word boundary in
  front of the digits, so the second redaction finds an IP address the first did not.
\<close>

theorem redact_not_idempotent:
  "redacted_prompt (redact_prompt (redacted_prompt (redact_prompt ''pin1.1.1.1'')))
     \<noteq> redacted_prompt (redact_prompt ''pin1.1.1.1'')"
  by (simp add: redact_pin_ip redact_pin_ip_again)

text \<open>
  C2. The endpoint \<open>check_prompt\<close> classifies the prompt and passes the original text to
  the provider whatever the risk: a high-risk prompt is sent unchanged.
\<close>

theorem check_prompt_forwards_high_risk:
  "risk (check_prompt call_groq call_gemini
           \<lparr>req_prompt = ''My SSN is 123-45-6789'', req_llm = Groq\<rparr>) = ''high''
   \<and> forwarded (check_prompt call_groq call_gemini
           \<lparr>req_prompt = ''My SSN is 123-45-6789'', req_llm = Groq\<rparr>)
       = [''My SSN is 123-45-6789'']
   \<and> response (check_prompt call_groq call_gemini
           \<lparr>req_prompt = ''My SSN is 123-45-6789'', req_llm = Groq\<rparr>)
       = call_groq ''My SSN is 123-45-6789''"
  by (simp add: check_prompt_def classify_risk_def analyze_ssn call_llm_def)

end
